theory Spec2Isabelle
  imports Main
begin

section \<open>Values exchanged with the client\<close>

text \<open>
  An ObjectId is modelled by a natural number (its \<open>toString()\<close> is injective, so the
  \<open>userId\<close> claim carries the same number); points in time are seconds on one clock.
\<close>

type_synonym objectId = nat
type_synonym timestamp = nat

text \<open>
  The handlers answer with object literals passed to \<open>res.json\<close>. A body is kept as
  the literal the source builds: an object is the list of its keys and values, in order.
\<close>

datatype json =
    JBool bool
  | JStr string
  | JId objectId
  | JDate timestamp
  | JArr "json list"
  | JObj "(string \<times> json) list"

record response =
  status :: nat
  body :: json






text \<open>shared/auth.ts: the request bodies. A field that the client left out is \<open>None\<close>.\<close>

record LoginRequest =
  l_email :: "string option"
  l_password :: "string option"

record RegisterRequest =
  r_email :: "string option"
  r_password :: "string option"
  r_name :: "string option"

text \<open>JavaScript truthiness of a possibly undefined string: \<open>!x\<close> holds for
  \<open>undefined\<close> and for the empty string.\<close>

definition falsy :: "string option \<Rightarrow> bool" where
  "falsy x = (case x of None \<Rightarrow> True | Some s \<Rightarrow> s = [])"

section \<open>server/lib/jwt.ts\<close>

record JWTPayload =
  userId :: objectId
  email :: string
  name :: string

text \<open>What \<open>jwt.verify\<close> hands back: the payload together with the issue and expiry times
  that \<open>jwt.sign\<close> added.\<close>

record JwtDecoded = JWTPayload +
  iat :: timestamp
  expiry :: timestamp

datatype jwt_error = TokenExpiredError | JsonWebTokenError | NotBeforeError

text \<open>A JavaScript \<open>Error\<close> with its message.\<close>

datatype js_error = Error string

text \<open>
  The jsonwebtoken package is an external library; the module takes it as a parameter:
  \<open>jwt_sign payload secret expiresIn now\<close> and \<open>jwt_verify token secret now\<close>.
  \<open>expiresIn\<close> is the string of the configuration (\<open>"7d"\<close>); \<open>jwt_timespan\<close> is the
  library's reading of such a string in seconds, and \<open>jwt.sign\<close> throws an \<open>Error\<close> on a
  string it cannot read.
\<close>

record jwt_lib =
  jwt_timespan :: "string \<Rightarrow> nat option"
  jwt_sign :: "JWTPayload \<Rightarrow> string \<Rightarrow> string \<Rightarrow> timestamp \<Rightarrow> js_error + string"
  jwt_verify :: "string \<Rightarrow> string \<Rightarrow> timestamp \<Rightarrow> jwt_error + JwtDecoded"

text \<open>The stored document of models/User.ts. \<open>u_password\<close> is \<open>None\<close> on a document
  that a query returned with the projection \<open>-password\<close>.\<close>

record IUser =
  u_id :: objectId
  u_email :: string
  u_password :: "string option"
  u_name :: string
  u_createdAt :: timestamp

text \<open>
  The process environment and the packages the server is linked with.
  The schema of models/User.ts is not part of the sources at hand; its setter on the
  email path, its test of the shape of an email, the messages of its validators and
  its password hashing are parameters.
\<close>

record env =
  env_JWT_SECRET :: "string option"
  env_JWT_EXPIRE :: "string option"
  jwt :: jwt_lib
  emailSetter :: "string \<Rightarrow> string"
  validEmail :: "string \<Rightarrow> bool"
  msgEmail :: string
  msgPassword :: string
  msgName :: string
  bcrypt_hash :: "string \<Rightarrow> string"
  bcrypt_compare :: "string \<Rightarrow> string \<Rightarrow> bool"

definition JWT_SECRET :: "env \<Rightarrow> string" where
  "JWT_SECRET e =
     (if falsy (env_JWT_SECRET e) then ''your-secret-key-change-in-production''
      else the (env_JWT_SECRET e))"

definition JWT_EXPIRE :: "env \<Rightarrow> string" where
  "JWT_EXPIRE e = (if falsy (env_JWT_EXPIRE e) then ''7d'' else the (env_JWT_EXPIRE e))"

text \<open>\<open>generateToken\<close> returns the token, or throws what \<open>jwt.sign\<close> throws.\<close>

definition generateToken :: "env \<Rightarrow> IUser \<Rightarrow> timestamp \<Rightarrow> js_error + string" where
  "generateToken e user t =
     (let payload = \<lparr>userId = u_id user, email = u_email user, name = u_name user\<rparr>
      in jwt_sign (jwt e) payload (JWT_SECRET e) (JWT_EXPIRE e) t)"

definition verifyToken :: "env \<Rightarrow> string \<Rightarrow> timestamp \<Rightarrow> js_error + JwtDecoded" where
  "verifyToken e token t =
     (case jwt_verify (jwt e) token (JWT_SECRET e) t of
        Inr decoded \<Rightarrow> Inr decoded
      | Inl error \<Rightarrow> Inl (Error ''Invalid token''))"

section \<open>The credential store\<close>

text \<open>
  Everything a request can touch: the user collection, whether the database can be
  reached, the next ObjectId the driver will hand out, the clock, and a trace of the
  calls the server made to its collaborators.
\<close>

text \<open>The fields a query asks for: all of them, or all but the password
  (\<open>.select("-password")\<close>).\<close>

datatype projection = AllFields | MinusPassword

datatype event =
    EvConnect
  | EvFindOne string
  | EvFindById "objectId option" projection
  | EvSave objectId
  | EvComparePassword objectId
  | EvVerify string
  | EvNext

record world =
  users :: "IUser list"
  dbAvailable :: bool
  nextId :: objectId
  now :: timestamp
  trace :: "event list"

definition emit :: "event \<Rightarrow> world \<Rightarrow> world" where
  "emit ev w = w\<lparr>trace := trace w @ [ev]\<rparr>"

text \<open>What a \<open>try\<close> block can catch: a Mongoose \<open>ValidationError\<close> with the messages of
  its \<open>errors\<close>, or any error with another name.\<close>

datatype exn = ValidationError "string list" | OtherError string

text \<open>
  server/lib/mongodb.ts (\<open>connectDB\<close>) and server/models/User.ts are not among the
  sources. The spec has a credential store with \<open>create\<close>, \<open>findByEmail\<close>, \<open>findById\<close>
  and \<open>verifyPassword\<close>, each of which may fail when the storage cannot be reached;
  emails are normalised, a record is validated before it is written, and the password
  is hashed on write. The definitions of this section follow these words.
\<close>

text \<open>Modelled from the spec: \<open>connectDB\<close> of server/lib/mongodb.ts is missing. It
  establishes the connection or fails as unreachable storage does.\<close>

definition connectDB :: "world \<Rightarrow> exn + world" where
  "connectDB w =
     (if dbAvailable w then Inr (emit EvConnect w)
      else Inl (OtherError ''MongooseServerSelectionError''))"

text \<open>Modelled from the spec: \<open>User.findOne({ email })\<close> of the missing model is the spec's
  \<open>findByEmail\<close>, on the email as the schema's setter normalises it; the first match in
  the collection, or none.\<close>

definition User_findOne :: "env \<Rightarrow> string \<Rightarrow> world \<Rightarrow> exn + (IUser option \<times> world)" where
  "User_findOne e em w =
     (if dbAvailable w
      then Inr (find (\<lambda>u. u_email u = emailSetter e em) (users w),
                emit (EvFindOne (emailSetter e em)) w)
      else Inl (OtherError ''MongooseServerSelectionError''))"

text \<open>Modelled from the spec: \<open>User.findById(id).select("-password")\<close> of the missing
  model is the spec's \<open>findById\<close> "excluding the password hash from the result". An
  undefined id finds nothing.\<close>

definition select :: "projection \<Rightarrow> IUser \<Rightarrow> IUser" where
  "select p u = (case p of AllFields \<Rightarrow> u | MinusPassword \<Rightarrow> u\<lparr>u_password := None\<rparr>)"

definition User_findById ::
  "objectId option \<Rightarrow> projection \<Rightarrow> world \<Rightarrow> exn + (IUser option \<times> world)" where
  "User_findById i p w =
     (if dbAvailable w
      then Inr (case i of
                  None \<Rightarrow> None
                | Some k \<Rightarrow> map_option (select p) (find (\<lambda>u. u_id u = k) (users w)),
                emit (EvFindById i p) w)
      else Inl (OtherError ''MongooseServerSelectionError''))"

text \<open>Modelled from the spec: \<open>new User({email, password, name})\<close> of the missing model
  makes a document with a fresh id, the normalised email and the creation time.\<close>

definition User_new :: "env \<Rightarrow> string \<Rightarrow> string \<Rightarrow> string \<Rightarrow> world \<Rightarrow> IUser \<times> world" where
  "User_new e em pw nm w =
     (\<lparr>u_id = nextId w, u_email = emailSetter e em, u_password = Some pw, u_name = nm,
       u_createdAt = now w\<rparr>,
      w\<lparr>nextId := Suc (nextId w)\<rparr>)"

text \<open>Modelled from the spec: the validators of the missing schema. The spec has
  "email must match a valid email shape; name length \<open>\<ge>\<close> 2; plaintextPassword length
  \<open>\<ge>\<close> 6" and a \<open>ValidationError\<close> "carrying one message per violated field": each
  field has its one message, which is in the list when the field is rejected.\<close>

definition validators :: "env \<Rightarrow> IUser \<Rightarrow> string list" where
  "validators e user =
     (if validEmail e (u_email user) then [] else [msgEmail e]) @
     (if 6 \<le> length (case u_password user of None \<Rightarrow> [] | Some p \<Rightarrow> p) then []
      else [msgPassword e]) @
     (if 2 \<le> length (u_name user) then [] else [msgName e])"

text \<open>Modelled from the spec: \<open>user.save()\<close> of the missing model is the second half of the
  spec's \<open>create\<close>: the validators run first and fail with one message for each field
  they reject, then the password is replaced by its hash, then the record is written.\<close>

definition User_save :: "env \<Rightarrow> IUser \<Rightarrow> world \<Rightarrow> exn + (IUser \<times> world)" where
  "User_save e user w =
     (case validators e user of
        m # ms \<Rightarrow> Inl (ValidationError (m # ms))
      | [] \<Rightarrow>
          if dbAvailable w
          then (let user' = user\<lparr>u_password := map_option (bcrypt_hash e) (u_password user)\<rparr>
                in Inr (user', emit (EvSave (u_id user')) (w\<lparr>users := users w @ [user']\<rparr>)))
          else Inl (OtherError ''MongooseServerSelectionError''))"

text \<open>Modelled from the spec: \<open>user.comparePassword\<close> of the missing model is the spec's
  \<open>verifyPassword\<close>, a comparison of the candidate with the stored hash; on a document
  without a password the comparison throws.\<close>

definition comparePassword :: "env \<Rightarrow> IUser \<Rightarrow> string \<Rightarrow> world \<Rightarrow> exn + (bool \<times> world)" where
  "comparePassword e user candidate w =
     (case u_password user of
        None \<Rightarrow> Inl (OtherError ''Illegal arguments'')
      | Some h \<Rightarrow> Inr (bcrypt_compare e candidate h, emit (EvComparePassword (u_id user)) w))"

section \<open>server/routes/auth.ts\<close>

definition failure :: "nat \<Rightarrow> string \<Rightarrow> response" where
  "failure code msg =
     \<lparr>status = code, body = JObj [(''success'', JBool False), (''message'', JStr msg)]\<rparr>"

definition register_catch :: "exn \<Rightarrow> response" where
  "register_catch error =
     (case error of
        ValidationError validationErrors \<Rightarrow>
          \<lparr>status = 400,
           body = JObj [(''success'', JBool False), (''message'', JStr ''Validation failed''),
                        (''errors'', JArr (map JStr validationErrors))]\<rparr>
      | OtherError _ \<Rightarrow> failure 500 ''Internal server error'')"

definition register :: "env \<Rightarrow> RegisterRequest \<Rightarrow> world \<Rightarrow> response \<times> world" where
  "register e req w =
     (case connectDB w of
        Inl error \<Rightarrow> (register_catch error, w)
      | Inr w1 \<Rightarrow>
          if falsy (r_email req) \<or> falsy (r_password req) \<or> falsy (r_name req)
          then (failure 400 ''Email, password, and name are required'', w1)
          else
            (case User_findOne e (the (r_email req)) w1 of
               Inl error \<Rightarrow> (register_catch error, w1)
             | Inr (existingUser, w2) \<Rightarrow>
                 if existingUser \<noteq> None
                 then (failure 400 ''User with this email already exists'', w2)
                 else
                   (case User_new e (the (r_email req)) (the (r_password req))
                           (the (r_name req)) w2 of
                      (user, w3) \<Rightarrow>
                        (case User_save e user w3 of
                           Inl error \<Rightarrow> (register_catch error, w3)
                         | Inr (user', w4) \<Rightarrow>
                             (case generateToken e user' (now w4) of
                                Inl (Error m) \<Rightarrow> (register_catch (OtherError m), w4)
                              | Inr token \<Rightarrow>
                                 (\<lparr>status = 201,
                                   body = JObj
                                     [(''success'', JBool True),
                                      (''message'', JStr ''User registered successfully''),
                                      (''token'', JStr token),
                                      (''user'', JObj [(''id'', JId (u_id user')),
                                                       (''email'', JStr (u_email user')),
                                                       (''name'', JStr (u_name user'))])]\<rparr>,
                                  w4))))))"

definition login :: "env \<Rightarrow> LoginRequest \<Rightarrow> world \<Rightarrow> response \<times> world" where
  "login e req w =
     (case connectDB w of
        Inl error \<Rightarrow> (failure 500 ''Internal server error'', w)
      | Inr w1 \<Rightarrow>
          if falsy (l_email req) \<or> falsy (l_password req)
          then (failure 400 ''Email and password are required'', w1)
          else
            (case User_findOne e (the (l_email req)) w1 of
               Inl error \<Rightarrow> (failure 500 ''Internal server error'', w1)
             | Inr (None, w2) \<Rightarrow> (failure 400 ''Invalid email or password'', w2)
             | Inr (Some user, w2) \<Rightarrow>
                 (case comparePassword e user (the (l_password req)) w2 of
                    Inl error \<Rightarrow> (failure 500 ''Internal server error'', w2)
                  | Inr (isMatch, w3) \<Rightarrow>
                      if \<not> isMatch
                      then (failure 400 ''Invalid email or password'', w3)
                      else
                        (case generateToken e user (now w3) of
                           Inl error \<Rightarrow> (failure 500 ''Internal server error'', w3)
                         | Inr token \<Rightarrow>
                            (\<lparr>status = 200,
                              body = JObj
                                [(''success'', JBool True),
                                 (''message'', JStr ''Login successful''),
                                 (''token'', JStr token),
                                 (''user'', JObj [(''id'', JId (u_id user)),
                                                  (''email'', JStr (u_email user)),
                                                  (''name'', JStr (u_name user))])]\<rparr>,
                             w3)))))"

text \<open>\<open>req.user\<close> is what the middleware attached, if it ran; \<open>req.user?.userId\<close> is
  undefined otherwise.\<close>

definition getProfile :: "env \<Rightarrow> JwtDecoded option \<Rightarrow> world \<Rightarrow> response \<times> world" where
  "getProfile e req_user w =
     (case connectDB w of
        Inl error \<Rightarrow> (failure 500 ''Internal server error'', w)
      | Inr w1 \<Rightarrow>
          (case User_findById (map_option userId req_user) MinusPassword w1 of
             Inl error \<Rightarrow> (failure 500 ''Internal server error'', w1)
           | Inr (None, w2) \<Rightarrow> (failure 404 ''User not found'', w2)
           | Inr (Some user, w2) \<Rightarrow>
               (\<lparr>status = 200,
                 body = JObj
                   [(''success'', JBool True),
                    (''user'', JObj [(''id'', JId (u_id user)),
                                     (''email'', JStr (u_email user)),
                                     (''name'', JStr (u_name user)),
                                     (''createdAt'', JDate (u_createdAt user))])]\<rparr>,
                w2)))"

text \<open>\<open>logout\<close> receives the request (its headers and body, of any shape) and ignores it.\<close>

definition logout :: "'req \<Rightarrow> world \<Rightarrow> response \<times> world" where
  "logout req w =
     (\<lparr>status = 200,
       body = JObj [(''success'', JBool True), (''message'', JStr ''Logout successful'')]\<rparr>,
      w)"

section \<open>server/middleware/auth.ts\<close>

text \<open>\<open>String.prototype.split\<close> with a one-character separator: the pieces between the
  separators, empty pieces included; the empty string gives one empty piece.\<close>

fun split :: "char \<Rightarrow> string \<Rightarrow> string list" where
  "split c [] = [[]]"
| "split c (x # xs) =
     (if x = c then [] # split c xs
      else (case split c xs of
              [] \<Rightarrow> [[x]]
            | y # ys \<Rightarrow> (x # y) # ys))"

text \<open>Indexing a JavaScript array: \<open>undefined\<close> beyond its end.\<close>

definition index :: "'a list \<Rightarrow> nat \<Rightarrow> 'a option" where
  "index xs i = (if i < length xs then Some (xs ! i) else None)"

text \<open>\<open>authHeader && authHeader.split(" ")[1]\<close>: an undefined or empty header is the
  value of the conjunction itself.\<close>

definition extractToken :: "string option \<Rightarrow> string option" where
  "extractToken authHeader =
     (if falsy authHeader then authHeader
      else index (split CHR '' '' (the authHeader)) 1)"

text \<open>The middleware either answers itself or calls \<open>next()\<close> with \<open>req.user\<close> set.\<close>

datatype outcome = Responded response | Next JwtDecoded

definition authenticateToken :: "env \<Rightarrow> string option \<Rightarrow> world \<Rightarrow> outcome \<times> world" where
  "authenticateToken e authHeader w =
     (let token = extractToken authHeader
      in if falsy token
         then (Responded (failure 401 ''Access token required''), w)
         else
           (case verifyToken e (the token) (now w) of
              Inr decoded \<Rightarrow> (Next decoded, emit EvNext (emit (EvVerify (the token)) w))
            | Inl error \<Rightarrow>
                (Responded (failure 403 ''Invalid or expired token''),
                 emit (EvVerify (the token)) w)))"

section \<open>server/index.ts\<close>

text \<open>\<open>app.get("/api/auth/profile", authenticateToken, getProfile)\<close>: the handler runs
  when, and only when, the middleware called \<open>next()\<close>.\<close>

definition profile_route :: "env \<Rightarrow> string option \<Rightarrow> world \<Rightarrow> response \<times> world" where
  "profile_route e authHeader w =
     (case authenticateToken e authHeader w of
        (Responded r, w') \<Rightarrow> (r, w')
      | (Next decoded, w') \<Rightarrow> getProfile e (Some decoded) w')"

section \<open>What the server relies on in the token library\<close>

text \<open>
  The documented behaviour of \<open>jwt.sign\<close> with \<open>expiresIn\<close> and of \<open>jwt.verify\<close>:
  \<open>"7d"\<close> is seven days; on a time span it cannot read \<open>jwt.sign\<close> throws; on one it
  reads as \<open>ttl\<close> seconds it returns a token that, signed at \<open>t0\<close>, verifies under the same
  secret to its payload, with \<open>iat = t0\<close> and \<open>exp = t0 + ttl\<close>, as long as the clock is
  before \<open>exp\<close>; from \<open>exp\<close> on, \<open>jwt.verify\<close> throws \<open>TokenExpiredError\<close>.
\<close>

definition decoded :: "JWTPayload \<Rightarrow> timestamp \<Rightarrow> timestamp \<Rightarrow> JwtDecoded" where
  "decoded p i x = \<lparr>userId = userId p, email = email p, name = name p, iat = i, expiry = x\<rparr>"

definition jwt_contract :: "jwt_lib \<Rightarrow> bool" where
  "jwt_contract lib \<longleftrightarrow>
     jwt_timespan lib ''7d'' = Some (7 * 24 * 60 * 60) \<and>
     (\<forall>p secret span t0.
        case jwt_timespan lib span of
          None \<Rightarrow> (\<exists>m. jwt_sign lib p secret span t0 = Inl (Error m))
        | Some ttl \<Rightarrow>
            (\<exists>token. jwt_sign lib p secret span t0 = Inr token \<and>
               (\<forall>t. jwt_verify lib token secret t =
                      (if t < t0 + ttl then Inr (decoded p t0 (t0 + ttl))
                       else Inl TokenExpiredError))))"

section \<open>A reference token library\<close>

text \<open>
  A small library with the interface above, so that the handlers can be run on concrete
  requests: a token is \<open>header.payload.signature\<close>, the payload holds the three claims and
  the two times, and the signature is a tag computed from the secret and from
  \<open>header.payload\<close>, which \<open>verify\<close> recomputes and compares (it stands for the keyed
  hash; nothing below depends on its being hard to forge). Strings are written bit by
  bit and numbers in binary, so that no segment contains a separator.
\<close>

definition bit_char :: "bool \<Rightarrow> char" where
  "bit_char b = (if b then CHR ''1'' else CHR ''0'')"

fun enc_char :: "char \<Rightarrow> string" where
  "enc_char (Char b0 b1 b2 b3 b4 b5 b6 b7) = map bit_char [b0, b1, b2, b3, b4, b5, b6, b7]"

definition enc_string :: "string \<Rightarrow> string" where
  "enc_string s = concat (map enc_char s)"

definition is_bit :: "char \<Rightarrow> bool" where
  "is_bit c \<longleftrightarrow> c = CHR ''0'' \<or> c = CHR ''1''"

definition bit_of :: "char \<Rightarrow> bool" where
  "bit_of c \<longleftrightarrow> c = CHR ''1''"

fun dec_string :: "string \<Rightarrow> string option" where
  "dec_string [] = Some []"
| "dec_string (c0 # c1 # c2 # c3 # c4 # c5 # c6 # c7 # cs) =
     (if list_all is_bit [c0, c1, c2, c3, c4, c5, c6, c7]
      then map_option
             (Cons (Char (bit_of c0) (bit_of c1) (bit_of c2) (bit_of c3)
                         (bit_of c4) (bit_of c5) (bit_of c6) (bit_of c7)))
             (dec_string cs)
      else None)"
| "dec_string _ = None"

fun enc_nat :: "nat \<Rightarrow> string" where
  "enc_nat n = (if n = 0 then [] else bit_char (odd n) # enc_nat (n div 2))"

fun dec_nat :: "string \<Rightarrow> nat option" where
  "dec_nat [] = Some 0"
| "dec_nat (c # cs) =
     (if is_bit c
      then map_option (\<lambda>m. 2 * m + (if bit_of c then 1 else 0)) (dec_nat cs)
      else None)"

text \<open>\<open>Array.prototype.join\<close> with a one-character separator.\<close>

fun join :: "char \<Rightarrow> string list \<Rightarrow> string" where
  "join c [] = []"
| "join c [x] = x"
| "join c (x # y # ys) = x @ c # join c (y # ys)"

definition ref_payload :: "JWTPayload \<Rightarrow> timestamp \<Rightarrow> timestamp \<Rightarrow> string" where
  "ref_payload p i x =
     join CHR '','' [enc_nat (userId p), enc_string (email p), enc_string (name p),
                    enc_nat i, enc_nat x]"

definition ref_tag :: "string \<Rightarrow> string \<Rightarrow> string" where
  "ref_tag secret signing_input =
     enc_string secret @ CHR ''_'' #
     map (\<lambda>c. if c = CHR ''.'' then CHR ''_'' else c) signing_input"

definition ref_sign :: "JWTPayload \<Rightarrow> string \<Rightarrow> nat \<Rightarrow> timestamp \<Rightarrow> string" where
  "ref_sign p secret ttl t =
     (let signing_input = join CHR ''.'' [''HS256'', ref_payload p t (t + ttl)]
      in join CHR ''.'' [signing_input, ref_tag secret signing_input])"

definition ref_decode :: "string \<Rightarrow> JwtDecoded option" where
  "ref_decode seg =
     (case split CHR '','' seg of
        [a, b, c, d, x] \<Rightarrow>
          (case (dec_nat a, dec_string b, dec_string c, dec_nat d, dec_nat x) of
             (Some u, Some em, Some nm, Some i, Some y) \<Rightarrow>
               Some \<lparr>userId = u, email = em, name = nm, iat = i, expiry = y\<rparr>
           | _ \<Rightarrow> None)
      | _ \<Rightarrow> None)"

text \<open>The order of the library: structure, signature, expiry.\<close>

definition ref_verify :: "string \<Rightarrow> string \<Rightarrow> timestamp \<Rightarrow> jwt_error + JwtDecoded" where
  "ref_verify token secret t =
     (case split CHR ''.'' token of
        [h, p, s] \<Rightarrow>
          (case (if h = ''HS256'' then ref_decode p else None) of
             None \<Rightarrow> Inl JsonWebTokenError
           | Some d \<Rightarrow>
               if s \<noteq> ref_tag secret (join CHR ''.'' [h, p]) then Inl JsonWebTokenError
               else if expiry d \<le> t then Inl TokenExpiredError
               else Inr d)
      | _ \<Rightarrow> Inl JsonWebTokenError)"

text \<open>A time span is a decimal number and a unit: seconds, minutes, hours or days; a
  number alone is in milliseconds.\<close>

definition digit_of :: "char \<Rightarrow> nat option" where
  "digit_of c =
     (let n = (of_char c :: nat) in if 48 \<le> n \<and> n \<le> 57 then Some (n - 48) else None)"

fun ref_number :: "nat \<Rightarrow> string \<Rightarrow> nat \<times> string" where
  "ref_number acc [] = (acc, [])"
| "ref_number acc (c # cs) =
     (case digit_of c of
        None \<Rightarrow> (acc, c # cs)
      | Some d \<Rightarrow> ref_number (10 * acc + d) cs)"

definition ref_timespan :: "string \<Rightarrow> nat option" where
  "ref_timespan s =
     (case s of
        [] \<Rightarrow> None
      | c # cs \<Rightarrow>
          (case digit_of c of
             None \<Rightarrow> None
           | Some d \<Rightarrow>
               (case ref_number 0 s of
                  (n, u) \<Rightarrow>
                    if u = [] then Some (n div 1000)
                    else if u = ''s'' then Some n
                    else if u = ''m'' then Some (60 * n)
                    else if u = ''h'' then Some (60 * 60 * n)
                    else if u = ''d'' then Some (24 * 60 * 60 * n)
                    else None)))"

definition ref_sign_span ::
  "JWTPayload \<Rightarrow> string \<Rightarrow> string \<Rightarrow> timestamp \<Rightarrow> js_error + string" where
  "ref_sign_span p secret span t =
     (case ref_timespan span of
        None \<Rightarrow> Inl (Error ''expiresIn should be a number of seconds or a timespan'')
      | Some ttl \<Rightarrow> Inr (ref_sign p secret ttl t))"

definition reference_jwt :: jwt_lib where
  "reference_jwt =
     \<lparr>jwt_timespan = ref_timespan, jwt_sign = ref_sign_span, jwt_verify = ref_verify\<rparr>"

section \<open>A concrete server and store\<close>

text \<open>
  An environment with no variables set, the reference token library, an email setter
  that leaves the address as it is, an email shape that asks for an \<open>@\<close>, three
  validation messages, and a stand-in for bcrypt.
\<close>

definition demo_env :: env where
  "demo_env =
     \<lparr>env_JWT_SECRET = None, env_JWT_EXPIRE = None, jwt = reference_jwt,
      emailSetter = (\<lambda>s. s), validEmail = (\<lambda>s. CHR ''@'' \<in> set s),
      msgEmail = ''Please enter a valid email'',
      msgPassword = ''Password must be at least 6 characters long'',
      msgName = ''Name must be at least 2 characters long'',
      bcrypt_hash = (\<lambda>p. ''$2a$10$'' @ rev p),
      bcrypt_compare = (\<lambda>candidate h. h = ''$2a$10$'' @ rev candidate)\<rparr>"

text \<open>The same server started with \<open>JWT_EXPIRE=soon\<close>, which is no time span.\<close>

definition misconfigured_env :: env where
  "misconfigured_env = demo_env\<lparr>env_JWT_EXPIRE := Some ''soon''\<rparr>"

definition john :: IUser where
  "john = \<lparr>u_id = 7, u_email = ''john@example.com'',
           u_password = Some ''$2a$10$321drowssap'', u_name = ''John Doe'',
           u_createdAt = 1000\<rparr>"

definition demo_world :: world where
  "demo_world = \<lparr>users = [john], dbAvailable = True, nextId = 8, now = 2000, trace = []\<rparr>"

definition offline_world :: world where
  "offline_world = demo_world\<lparr>dbAvailable := False\<rparr>"

text \<open>The token that the concrete server issues for a user at a time.\<close>

definition demo_token :: "IUser \<Rightarrow> timestamp \<Rightarrow> string" where
  "demo_token u t =
     ref_sign \<lparr>userId = u_id u, email = u_email u, name = u_name u\<rparr>
       ''your-secret-key-change-in-production'' 604800 t"

text \<open>A token of the reference library that was issued at time 0 for ten seconds.\<close>

definition stale_token :: string where
  "stale_token =
     ref_sign \<lparr>userId = 7, email = ''john@example.com'', name = ''John Doe''\<rparr>
       ''your-secret-key-change-in-production'' 10 0"

definition mary_request :: RegisterRequest where
  "mary_request =
     \<lparr>r_email = Some ''mary@example.com'', r_password = Some ''secret1'',
      r_name = Some ''Mary''\<rparr>"

definition mary :: IUser where
  "mary = \<lparr>u_id = 8, u_email = ''mary@example.com'', u_password = Some ''$2a$10$1terces'',
           u_name = ''Mary'', u_createdAt = 2000\<rparr>"

section \<open>Splitting and the reference library\<close>

lemma split_no_sep: "c \<notin> set a \<Longrightarrow> split c a = [a]"
  by (induction a) (auto split: list.splits)

lemma split_append: "c \<notin> set a \<Longrightarrow> split c (a @ c # r) = a # split c r"
  by (induction a) (auto split: list.splits)

lemma enc_char_bits: "set (enc_char ch) \<subseteq> {CHR ''0'', CHR ''1''}"
  by (cases ch) (auto simp: bit_char_def)

lemma enc_string_bits: "set (enc_string s) \<subseteq> {CHR ''0'', CHR ''1''}"
  using enc_char_bits by (induction s) (auto simp: enc_string_def)

declare enc_nat.simps [simp del]

lemma enc_nat_bits: "set (enc_nat n) \<subseteq> {CHR ''0'', CHR ''1''}"
  by (induction n rule: enc_nat.induct) (subst enc_nat.simps, auto simp: bit_char_def)

lemma dec_enc_nat: "dec_nat (enc_nat n) = Some n"
  by (induction n rule: enc_nat.induct)
     (subst enc_nat.simps, auto simp: bit_char_def is_bit_def bit_of_def)

lemma dec_enc_string: "dec_string (enc_string s) = Some s"
proof (induction s)
  case Nil
  show ?case by (simp add: enc_string_def)
next
  case (Cons ch s)
  then show ?case
    by (cases ch) (simp add: enc_string_def bit_char_def is_bit_def bit_of_def)
qed

lemma sep_not_in_enc_string:
  "c \<noteq> CHR ''0'' \<Longrightarrow> c \<noteq> CHR ''1'' \<Longrightarrow> c \<notin> set (enc_string s)"
  using enc_string_bits [of s] by auto

lemma sep_not_in_enc_nat:
  "c \<noteq> CHR ''0'' \<Longrightarrow> c \<noteq> CHR ''1'' \<Longrightarrow> c \<notin> set (enc_nat n)"
  using enc_nat_bits [of n] by auto

lemma ref_decode_payload: "ref_decode (ref_payload p i x) = Some (decoded p i x)"
  by (simp add: ref_decode_def ref_payload_def decoded_def split_append split_no_sep
        sep_not_in_enc_string sep_not_in_enc_nat dec_enc_nat dec_enc_string)

lemma dot_not_in_payload: "CHR ''.'' \<notin> set (ref_payload p i x)"
  by (simp add: ref_payload_def sep_not_in_enc_string sep_not_in_enc_nat)

lemma dot_not_in_tag: "CHR ''.'' \<notin> set (ref_tag secret inp)"
  by (auto simp: ref_tag_def sep_not_in_enc_string)

text \<open>The reference library does what the server relies on.\<close>

lemma ref_verify_sign:
  "ref_verify (ref_sign p secret ttl t0) secret t =
     (if t < t0 + ttl then Inr (decoded p t0 (t0 + ttl)) else Inl TokenExpiredError)"
proof -
  have parts: "split CHR ''.'' (ref_sign p secret ttl t0) =
      [''HS256'', ref_payload p t0 (t0 + ttl),
       ref_tag secret (join CHR ''.'' [''HS256'', ref_payload p t0 (t0 + ttl)])]"
    using split_append [of "CHR ''.''" "''HS256''"]
      split_append [of "CHR ''.''" "ref_payload p t0 (t0 + ttl)"]
      split_no_sep [of "CHR ''.''"
        "ref_tag secret (join CHR ''.'' [''HS256'', ref_payload p t0 (t0 + ttl)])"]
    by (simp add: ref_sign_def dot_not_in_payload dot_not_in_tag)
  show ?thesis
    unfolding ref_verify_def parts
    by (simp add: ref_decode_payload decoded_def)
qed

lemma ref_timespan_7d: "ref_timespan ''7d'' = Some 604800"
  by (simp add: ref_timespan_def digit_of_def)

lemma ref_timespan_soon: "ref_timespan ''soon'' = None"
  by (simp add: ref_timespan_def digit_of_def)

lemma reference_jwt_contract: "jwt_contract reference_jwt"
  by (auto simp: jwt_contract_def reference_jwt_def ref_sign_span_def ref_verify_sign
        ref_timespan_7d split: option.splits)

lemma space_not_in_ref_sign: "CHR '' '' \<notin> set (ref_sign p secret ttl t0)"
  by (auto simp: ref_sign_def ref_tag_def ref_payload_def sep_not_in_enc_string
        sep_not_in_enc_nat)

lemma ref_sign_nonempty: "ref_sign p secret ttl t0 \<noteq> []"
  by (simp add: ref_sign_def)

lemma extractToken_two_parts:
  "CHR '' '' \<notin> set a \<Longrightarrow> CHR '' '' \<notin> set t \<Longrightarrow>
   extractToken (Some (a @ CHR '' '' # t)) = Some t"
  by (simp add: extractToken_def falsy_def index_def split_append split_no_sep)

lemma extractToken_one_part: "CHR '' '' \<notin> set h \<Longrightarrow> falsy (extractToken (Some h))"
  by (simp add: extractToken_def falsy_def index_def split_no_sep)

lemma demo_token_verifies:
  "t < t0 + 604800 \<Longrightarrow>
   verifyToken demo_env (demo_token u t0) t =
     Inr \<lparr>userId = u_id u, email = u_email u, name = u_name u, iat = t0,
          expiry = t0 + 604800\<rparr>"
  by (simp add: verifyToken_def demo_token_def demo_env_def reference_jwt_def
        ref_verify_sign decoded_def JWT_SECRET_def falsy_def)

lemma demo_token_shape:
  "CHR '' '' \<notin> set (demo_token u t0)" "demo_token u t0 \<noteq> []"
  by (simp_all add: demo_token_def space_not_in_ref_sign ref_sign_nonempty)

lemma demo_generateToken: "generateToken demo_env u t0 = Inr (demo_token u t0)"
  by (simp add: generateToken_def demo_token_def demo_env_def reference_jwt_def
        ref_sign_span_def JWT_EXPIRE_def JWT_SECRET_def falsy_def ref_timespan_7d)

section \<open>Logout\<close>

text \<open>
  C9. Whatever the request holds, \<open>logout\<close> answers 200 with
  \<open>{success: true, message: "Logout successful"}\<close> and hands the world back as it got
  it: the stored users, every field of theirs and the trace of calls are the same, so
  nothing was read and nothing was written.
\<close>

theorem logout_unconditional:
  "logout req w =
     (\<lparr>status = 200,
       body = JObj [(''success'', JBool True), (''message'', JStr ''Logout successful'')]\<rparr>,
      w)"
  by (simp add: logout_def)

section \<open>The gate in front of the profile\<close>

text \<open>
  C2. On the protected route: when no token comes out of the Authorization header, the
  middleware answers 401 and the world is untouched (no verification was called); when
  a token is there and its verification fails, the answer is 403, the only call made
  is that verification, and the handler does not run; when the verification succeeds,
  the middleware calls \<open>next()\<close> with the decoded claims as \<open>req.user\<close>, and the route
  continues with \<open>getProfile\<close> on these claims.
\<close>

theorem authenticateToken_gate:
  "(falsy (extractToken h) \<longrightarrow>
      authenticateToken e h w =
        (Responded \<lparr>status = 401,
                    body = JObj [(''success'', JBool False),
                                 (''message'', JStr ''Access token required'')]\<rparr>, w)
      \<and> profile_route e h w =
        (\<lparr>status = 401,
          body = JObj [(''success'', JBool False),
                       (''message'', JStr ''Access token required'')]\<rparr>, w)) \<and>
   (extractToken h = Some token \<and> token \<noteq> [] \<and> verifyToken e token (now w) = Inl err \<longrightarrow>
      authenticateToken e h w =
        (Responded \<lparr>status = 403,
                    body = JObj [(''success'', JBool False),
                                 (''message'', JStr ''Invalid or expired token'')]\<rparr>,
         w\<lparr>trace := trace w @ [EvVerify token]\<rparr>)
      \<and> profile_route e h w =
        (\<lparr>status = 403,
          body = JObj [(''success'', JBool False),
                       (''message'', JStr ''Invalid or expired token'')]\<rparr>,
         w\<lparr>trace := trace w @ [EvVerify token]\<rparr>)) \<and>
   (extractToken h = Some token \<and> token \<noteq> [] \<and> verifyToken e token (now w) = Inr claims \<longrightarrow>
      authenticateToken e h w =
        (Next claims, w\<lparr>trace := trace w @ [EvVerify token, EvNext]\<rparr>)
      \<and> profile_route e h w =
        getProfile e (Some claims) (w\<lparr>trace := trace w @ [EvVerify token, EvNext]\<rparr>))"
  by (simp add: authenticateToken_def profile_route_def failure_def emit_def falsy_def)

theorem authenticateToken_gate_witness:
  "falsy (extractToken None) \<and>
   authenticateToken demo_env None demo_world =
     (Responded \<lparr>status = 401,
                 body = JObj [(''success'', JBool False),
                              (''message'', JStr ''Access token required'')]\<rparr>, demo_world) \<and>
   extractToken (Some ''Bearer abc'') = Some ''abc'' \<and>
   verifyToken demo_env ''abc'' (now demo_world) = Inl (Error ''Invalid token'') \<and>
   profile_route demo_env (Some ''Bearer abc'') demo_world =
     (\<lparr>status = 403,
       body = JObj [(''success'', JBool False),
                    (''message'', JStr ''Invalid or expired token'')]\<rparr>,
      demo_world\<lparr>trace := [EvVerify ''abc'']\<rparr>) \<and>
   extractToken (Some (''Bearer '' @ demo_token john 1990)) =
     Some (demo_token john 1990) \<and>
   authenticateToken demo_env (Some (''Bearer '' @ demo_token john 1990))
       demo_world =
     (Next \<lparr>userId = 7, email = ''john@example.com'', name = ''John Doe'', iat = 1990,
            expiry = 606790\<rparr>,
      demo_world\<lparr>trace := [EvVerify (demo_token john 1990), EvNext]\<rparr>)"
proof -
  have a: "falsy (extractToken None)"
    by (simp add: extractToken_def falsy_def)
  have b: "extractToken (Some ''Bearer abc'') = Some ''abc''"
    by (simp add: extractToken_def falsy_def index_def)
  have c: "verifyToken demo_env ''abc'' (now demo_world) = Inl (Error ''Invalid token'')"
    by (simp add: verifyToken_def demo_env_def reference_jwt_def ref_verify_def)
  have d: "extractToken (Some (''Bearer '' @ demo_token john 1990)) =
      Some (demo_token john 1990)"
    using extractToken_two_parts [of "''Bearer''" "demo_token john 1990"]
    by (simp add: demo_token_shape)
  have f: "verifyToken demo_env (demo_token john 1990) (now demo_world) =
      Inr \<lparr>userId = 7, email = ''john@example.com'', name = ''John Doe'', iat = 1990,
           expiry = 606790\<rparr>"
    using demo_token_verifies [of 2000 1990 john] by (simp add: demo_world_def john_def)
  show ?thesis
    using a b c d f
      authenticateToken_gate [where h = None and e = demo_env and w = demo_world]
      authenticateToken_gate [where h = "Some ''Bearer abc''" and token = "''abc''"
        and e = demo_env and w = demo_world and err = "Error ''Invalid token''"]
      authenticateToken_gate [where
        h = "Some (''Bearer '' @ demo_token john 1990)"
        and token = "demo_token john 1990" and e = demo_env and w = demo_world
        and claims = "\<lparr>userId = 7, email = ''john@example.com'', name = ''John Doe'',
                       iat = 1990, expiry = 606790\<rparr>"]
    by (simp add: demo_token_shape demo_world_def)
qed

text \<open>
  C10. The word in front of the token is never compared with \<open>Bearer\<close>: for any word
  and any token (both free of spaces, as a token is) that verifies, the header
  \<open>word token\<close> is accepted; a header without a space has no second part, so that a bare
  token or a lone scheme word is answered 401, as a missing token is, and not 403.
\<close>

theorem scheme_word_not_checked:
  "(CHR '' '' \<notin> set word \<and> CHR '' '' \<notin> set token \<and> token \<noteq> [] \<and>
    verifyToken e token (now w) = Inr claims \<longrightarrow>
      authenticateToken e (Some (word @ '' '' @ token)) w =
        (Next claims, w\<lparr>trace := trace w @ [EvVerify token, EvNext]\<rparr>)) \<and>
   (CHR '' '' \<notin> set h \<longrightarrow>
      authenticateToken e (Some h) w =
        (Responded \<lparr>status = 401,
                    body = JObj [(''success'', JBool False),
                                 (''message'', JStr ''Access token required'')]\<rparr>, w))"
proof (intro conjI impI)
  assume a: "CHR '' '' \<notin> set word \<and> CHR '' '' \<notin> set token \<and> token \<noteq> [] \<and>
    verifyToken e token (now w) = Inr claims"
  then have "extractToken (Some (word @ '' '' @ token)) = Some token"
    using extractToken_two_parts [of word token] by simp
  with a show "authenticateToken e (Some (word @ '' '' @ token)) w =
        (Next claims, w\<lparr>trace := trace w @ [EvVerify token, EvNext]\<rparr>)"
    by (simp add: authenticateToken_def emit_def falsy_def)
next
  assume "CHR '' '' \<notin> set h"
  then have "falsy (extractToken (Some h))"
    by (rule extractToken_one_part)
  then show "authenticateToken e (Some h) w =
        (Responded \<lparr>status = 401,
                    body = JObj [(''success'', JBool False),
                                 (''message'', JStr ''Access token required'')]\<rparr>, w)"
    by (simp add: authenticateToken_def failure_def)
qed

theorem scheme_word_not_checked_witness:
  "CHR '' '' \<notin> set ''Basic'' \<and>
   CHR '' '' \<notin> set (demo_token john 1990) \<and>
   demo_token john 1990 \<noteq> [] \<and>
   authenticateToken demo_env (Some (''Basic '' @ demo_token john 1990))
       demo_world =
     (Next \<lparr>userId = 7, email = ''john@example.com'', name = ''John Doe'', iat = 1990,
            expiry = 606790\<rparr>,
      demo_world\<lparr>trace := [EvVerify (demo_token john 1990), EvNext]\<rparr>) \<and>
   CHR '' '' \<notin> set ''Bearer'' \<and>
   authenticateToken demo_env (Some ''Bearer'') demo_world =
     (Responded \<lparr>status = 401,
                 body = JObj [(''success'', JBool False),
                              (''message'', JStr ''Access token required'')]\<rparr>, demo_world) \<and>
   authenticateToken demo_env (Some (demo_token john 1990)) demo_world =
     (Responded \<lparr>status = 401,
                 body = JObj [(''success'', JBool False),
                              (''message'', JStr ''Access token required'')]\<rparr>, demo_world)"
proof -
  have f: "verifyToken demo_env (demo_token john 1990) (now demo_world) =
      Inr \<lparr>userId = 7, email = ''john@example.com'', name = ''John Doe'', iat = 1990,
           expiry = 606790\<rparr>"
    using demo_token_verifies [of 2000 1990 john] by (simp add: demo_world_def john_def)
  show ?thesis
    using f
      scheme_word_not_checked [where word = "''Basic''"
        and token = "demo_token john 1990" and e = demo_env and w = demo_world
        and claims = "\<lparr>userId = 7, email = ''john@example.com'', name = ''John Doe'',
                       iat = 1990, expiry = 606790\<rparr>" and h = "''Bearer''"]
      scheme_word_not_checked [where h = "demo_token john 1990"
        and e = demo_env and w = demo_world]
    by (simp add: demo_token_shape demo_world_def)
qed

section \<open>Issuing and verifying tokens\<close>

lemma contract_sign_verify:
  "jwt_contract lib \<Longrightarrow> jwt_timespan lib span = Some ttl \<Longrightarrow>
   jwt_sign lib p secret span t0 = Inr token \<Longrightarrow>
   jwt_verify lib token secret t =
     (if t < t0 + ttl then Inr (decoded p t0 (t0 + ttl)) else Inl TokenExpiredError)"
proof -
  assume c: "jwt_contract lib" and s: "jwt_timespan lib span = Some ttl"
    and g: "jwt_sign lib p secret span t0 = Inr token"
  from c have "case jwt_timespan lib span of
      None \<Rightarrow> (\<exists>m. jwt_sign lib p secret span t0 = Inl (Error m))
    | Some ttl \<Rightarrow>
        (\<exists>token. jwt_sign lib p secret span t0 = Inr token \<and>
           (\<forall>t. jwt_verify lib token secret t =
                  (if t < t0 + ttl then Inr (decoded p t0 (t0 + ttl))
                   else Inl TokenExpiredError)))"
    unfolding jwt_contract_def by blast
  with s g show ?thesis by auto
qed

lemma contract_sign_succeeds:
  "jwt_contract lib \<Longrightarrow> jwt_timespan lib span = Some ttl \<Longrightarrow>
   \<exists>token. jwt_sign lib p secret span t0 = Inr token"
proof -
  assume c: "jwt_contract lib" and s: "jwt_timespan lib span = Some ttl"
  from c have "case jwt_timespan lib span of
      None \<Rightarrow> (\<exists>m. jwt_sign lib p secret span t0 = Inl (Error m))
    | Some ttl \<Rightarrow>
        (\<exists>token. jwt_sign lib p secret span t0 = Inr token \<and>
           (\<forall>t. jwt_verify lib token secret t =
                  (if t < t0 + ttl then Inr (decoded p t0 (t0 + ttl))
                   else Inl TokenExpiredError)))"
    unfolding jwt_contract_def by blast
  with s show ?thesis by auto
qed

lemma contract_sign_throws:
  "jwt_contract lib \<Longrightarrow> jwt_timespan lib span = None \<Longrightarrow>
   \<exists>m. jwt_sign lib p secret span t0 = Inl (Error m)"
proof -
  assume c: "jwt_contract lib" and s: "jwt_timespan lib span = None"
  from c have "case jwt_timespan lib span of
      None \<Rightarrow> (\<exists>m. jwt_sign lib p secret span t0 = Inl (Error m))
    | Some ttl \<Rightarrow>
        (\<exists>token. jwt_sign lib p secret span t0 = Inr token \<and>
           (\<forall>t. jwt_verify lib token secret t =
                  (if t < t0 + ttl then Inr (decoded p t0 (t0 + ttl))
                   else Inl TokenExpiredError)))"
    unfolding jwt_contract_def by blast
  with s show ?thesis by auto
qed

lemma contract_default_span:
  "jwt_contract (jwt e) \<Longrightarrow> env_JWT_EXPIRE e = None \<Longrightarrow>
   jwt_timespan (jwt e) (JWT_EXPIRE e) = Some (7 * 24 * 60 * 60)"
  by (simp add: jwt_contract_def JWT_EXPIRE_def falsy_def)

text \<open>
  C4, as the code has it. With a token library that keeps its contract and a
  \<open>JWT_EXPIRE\<close> that it reads as \<open>ttl\<close> seconds (seven days when the variable is not
  set): \<open>generateToken\<close> returns a token, which verifies, at any time before
  \<open>t0 + ttl\<close>, to the user's id, email and name (with the two times the library added);
  from \<open>t0 + ttl\<close> on, \<open>verifyToken\<close> fails, and the error it throws is
  \<open>Error("Invalid token")\<close>, the one it throws for every failure. On a \<open>JWT_EXPIRE\<close> that
  the library cannot read, \<open>generateToken\<close> throws.
\<close>

theorem verify_issue_roundtrip:
  "(jwt_contract (jwt e) \<and> jwt_timespan (jwt e) (JWT_EXPIRE e) = Some ttl \<longrightarrow>
      (\<exists>token. generateToken e user t0 = Inr token \<and>
         (\<forall>t. (t < t0 + ttl \<longrightarrow>
                 verifyToken e token t =
                   Inr \<lparr>userId = u_id user, email = u_email user, name = u_name user,
                        iat = t0, expiry = t0 + ttl\<rparr>) \<and>
              (t0 + ttl \<le> t \<longrightarrow>
                 verifyToken e token t = Inl (Error ''Invalid token''))))) \<and>
   (jwt_contract (jwt e) \<and> env_JWT_EXPIRE e = None \<longrightarrow>
      jwt_timespan (jwt e) (JWT_EXPIRE e) = Some (7 * 24 * 60 * 60)) \<and>
   (jwt_contract (jwt e) \<and> jwt_timespan (jwt e) (JWT_EXPIRE e) = None \<longrightarrow>
      (\<exists>m. generateToken e user t0 = Inl (Error m)))"
proof (intro conjI impI)
  assume a: "jwt_contract (jwt e) \<and> jwt_timespan (jwt e) (JWT_EXPIRE e) = Some ttl"
  let ?p = "\<lparr>userId = u_id user, email = u_email user, name = u_name user\<rparr>"
  from a obtain token
    where tok: "jwt_sign (jwt e) ?p (JWT_SECRET e) (JWT_EXPIRE e) t0 = Inr token"
    using contract_sign_succeeds [of "jwt e" "JWT_EXPIRE e" ttl ?p "JWT_SECRET e" t0]
    by auto
  have v: "jwt_verify (jwt e) token (JWT_SECRET e) t =
      (if t < t0 + ttl then Inr (decoded ?p t0 (t0 + ttl)) else Inl TokenExpiredError)" for t
    using a tok contract_sign_verify [of "jwt e" "JWT_EXPIRE e" ttl ?p "JWT_SECRET e" t0 token t]
    by simp
  show "\<exists>token. generateToken e user t0 = Inr token \<and>
         (\<forall>t. (t < t0 + ttl \<longrightarrow>
                 verifyToken e token t =
                   Inr \<lparr>userId = u_id user, email = u_email user, name = u_name user,
                        iat = t0, expiry = t0 + ttl\<rparr>) \<and>
              (t0 + ttl \<le> t \<longrightarrow>
                 verifyToken e token t = Inl (Error ''Invalid token'')))"
    using tok v by (auto simp: generateToken_def verifyToken_def decoded_def)
next
  assume "jwt_contract (jwt e) \<and> env_JWT_EXPIRE e = None"
  then show "jwt_timespan (jwt e) (JWT_EXPIRE e) = Some (7 * 24 * 60 * 60)"
    by (simp add: contract_default_span)
next
  assume "jwt_contract (jwt e) \<and> jwt_timespan (jwt e) (JWT_EXPIRE e) = None"
  then show "\<exists>m. generateToken e user t0 = Inl (Error m)"
    using contract_sign_throws [of "jwt e" "JWT_EXPIRE e"]
    by (simp add: generateToken_def)
qed

theorem verify_issue_roundtrip_witness:
  "jwt_contract (jwt demo_env) \<and> env_JWT_EXPIRE demo_env = None \<and>
   jwt_timespan (jwt demo_env) (JWT_EXPIRE demo_env) = Some 604800 \<and>
   generateToken demo_env john 2000 = Inr (demo_token john 2000) \<and>
   verifyToken demo_env (demo_token john 2000) 606799 =
     Inr \<lparr>userId = 7, email = ''john@example.com'', name = ''John Doe'',
          iat = 2000, expiry = 606800\<rparr> \<and>
   verifyToken demo_env (demo_token john 2000) 606800 = Inl (Error ''Invalid token'') \<and>
   jwt_contract (jwt misconfigured_env) \<and>
   jwt_timespan (jwt misconfigured_env) (JWT_EXPIRE misconfigured_env) = None \<and>
   generateToken misconfigured_env john 2000 =
     Inl (Error ''expiresIn should be a number of seconds or a timespan'')"
proof -
  have c: "jwt_contract (jwt demo_env)" "jwt_contract (jwt misconfigured_env)"
    by (simp_all add: demo_env_def misconfigured_env_def reference_jwt_contract)
  have n: "env_JWT_EXPIRE demo_env = None"
    by (simp add: demo_env_def)
  have s: "jwt_timespan (jwt misconfigured_env) (JWT_EXPIRE misconfigured_env) = None"
    by (simp add: misconfigured_env_def demo_env_def reference_jwt_def JWT_EXPIRE_def
          falsy_def ref_timespan_soon)
  have g: "generateToken demo_env john 2000 = Inr (demo_token john 2000)"
    by (rule demo_generateToken)
  have m: "generateToken misconfigured_env john 2000 =
     Inl (Error ''expiresIn should be a number of seconds or a timespan'')"
    by (simp add: generateToken_def misconfigured_env_def demo_env_def reference_jwt_def
          ref_sign_span_def JWT_EXPIRE_def falsy_def ref_timespan_soon)
  from c n verify_issue_roundtrip [where e = demo_env and ttl = 604800]
  have d: "jwt_timespan (jwt demo_env) (JWT_EXPIRE demo_env) = Some 604800"
    by simp
  from c d g verify_issue_roundtrip [where e = demo_env and ttl = 604800 and user = john
      and ?t0.0 = 2000]
  have v: "verifyToken demo_env (demo_token john 2000) 606799 =
     Inr \<lparr>userId = 7, email = ''john@example.com'', name = ''John Doe'',
          iat = 2000, expiry = 606800\<rparr>"
    "verifyToken demo_env (demo_token john 2000) 606800 = Inl (Error ''Invalid token'')"
    by (auto simp: john_def)
  show ?thesis
    using c n s g m d v by simp
qed

text \<open>
  The claim has the expired token fail with an error of its own, \<open>TokenExpired\<close>. At the
  moment of expiry the token issued for John fails with \<open>Error("Invalid token")\<close>, which
  is what a string that is no token at all fails with.
\<close>

theorem expired_reported_as_invalid_counterexample:
  "generateToken demo_env john 2000 = Inr (demo_token john 2000) \<and>
   verifyToken demo_env (demo_token john 2000) (2000 + 7 * 24 * 60 * 60) =
     Inl (Error ''Invalid token'') \<and>
   verifyToken demo_env ''not.a.token'' (2000 + 7 * 24 * 60 * 60) =
     Inl (Error ''Invalid token'')"
proof -
  have "verifyToken demo_env (demo_token john 2000) (2000 + 7 * 24 * 60 * 60) =
     Inl (Error ''Invalid token'')"
    by (simp add: verifyToken_def demo_token_def demo_env_def reference_jwt_def
          ref_verify_sign JWT_SECRET_def falsy_def)
  moreover have "verifyToken demo_env ''not.a.token'' (2000 + 7 * 24 * 60 * 60) =
     Inl (Error ''Invalid token'')"
    by (simp add: verifyToken_def demo_env_def reference_jwt_def ref_verify_def)
  ultimately show ?thesis by (simp add: demo_generateToken)
qed

text \<open>
  C5, as the code has it. \<open>verifyToken\<close> has one error: it fails exactly when the library
  rejects the token, whatever the cause (signature, structure or expiry), always with
  \<open>Error("Invalid token")\<close>; and it returns claims exactly when the library returns them.
\<close>

theorem verifyToken_one_error:
  "(verifyToken e token t = Inl (Error ''Invalid token'')) =
     (\<exists>cause. jwt_verify (jwt e) token (JWT_SECRET e) t = Inl cause) \<and>
   (verifyToken e token t = Inl err \<longrightarrow> err = Error ''Invalid token'') \<and>
   (verifyToken e token t = Inr claims) =
     (jwt_verify (jwt e) token (JWT_SECRET e) t = Inr claims)"
  by (auto simp: verifyToken_def split: sum.splits)

theorem verifyToken_one_error_witness:
  "verifyToken demo_env ''abc'' 50 = Inl (Error ''Invalid token'') \<and>
   jwt_verify (jwt demo_env) ''abc'' (JWT_SECRET demo_env) 50 = Inl JsonWebTokenError"
proof -
  have "jwt_verify (jwt demo_env) ''abc'' (JWT_SECRET demo_env) 50 = Inl JsonWebTokenError"
    by (simp add: demo_env_def reference_jwt_def ref_verify_def)
  then show ?thesis
    using verifyToken_one_error [where e = demo_env and token = "''abc''" and t = 50
        and err = "Error ''Invalid token''"]
    by auto
qed

text \<open>
  The claim has two distinct errors. The library does tell an expired token
  (\<open>TokenExpiredError\<close>) from a malformed one (\<open>JsonWebTokenError\<close>); \<open>verifyToken\<close> gives
  the same result for both.
\<close>

theorem verifyToken_distinguishes_counterexample:
  "jwt_verify (jwt demo_env) stale_token (JWT_SECRET demo_env) 50 = Inl TokenExpiredError \<and>
   jwt_verify (jwt demo_env) ''abc'' (JWT_SECRET demo_env) 50 = Inl JsonWebTokenError \<and>
   verifyToken demo_env stale_token 50 = verifyToken demo_env ''abc'' 50"
proof -
  have a: "jwt_verify (jwt demo_env) stale_token (JWT_SECRET demo_env) 50 =
      Inl TokenExpiredError"
    by (simp add: stale_token_def demo_env_def reference_jwt_def ref_verify_sign
          JWT_SECRET_def falsy_def)
  have b: "jwt_verify (jwt demo_env) ''abc'' (JWT_SECRET demo_env) 50 =
      Inl JsonWebTokenError"
    by (simp add: demo_env_def reference_jwt_def ref_verify_def)
  show ?thesis
    using a b by (simp add: verifyToken_def)
qed

section \<open>Facts about the store and the handlers\<close>

lemma find_None_image: "(find (\<lambda>u. f u = k) xs = None) = (k \<notin> f ` set xs)"
  by (auto simp: find_None_iff)


text \<open>The middleware changes nothing but the trace.\<close>

lemma authenticateToken_frame:
  "authenticateToken e h w = (out, w') \<Longrightarrow>
   users w' = users w \<and> dbAvailable w' = dbAvailable w \<and> now w' = now w \<and>
   nextId w' = nextId w"
  by (auto simp: authenticateToken_def emit_def Let_def split: if_splits sum.splits)

text \<open>
  The three handlers that use the store open the connection first, inside their \<open>try\<close>
  block. When the database cannot be reached they answer 500, whatever the request; the
  statements on \<open>register\<close>, \<open>login\<close> and \<open>getProfile\<close> below are about a store that can
  be reached.
\<close>

lemma storage_unreachable:
  "\<not> dbAvailable w \<Longrightarrow>
   register e rq w = (failure 500 ''Internal server error'', w) \<and>
   login e lq w = (failure 500 ''Internal server error'', w) \<and>
   getProfile e c w = (failure 500 ''Internal server error'', w)"
  by (simp add: register_def login_def getProfile_def connectDB_def register_catch_def)

lemma demo_authenticated:
  "now w < t0 + 604800 \<Longrightarrow>
   authenticateToken demo_env (Some (''Bearer '' @ demo_token u t0)) w =
     (Next \<lparr>userId = u_id u, email = u_email u, name = u_name u, iat = t0,
            expiry = t0 + 604800\<rparr>,
      w\<lparr>trace := trace w @ [EvVerify (demo_token u t0), EvNext]\<rparr>)"
  using extractToken_two_parts [of "''Bearer''" "demo_token u t0"]
  by (simp add: authenticateToken_def demo_token_shape demo_token_verifies falsy_def emit_def)

section \<open>The profile\<close>

text \<open>
  C8. A profile request that the middleware let through, with \<open>claims\<close> as \<open>req.user\<close>,
  and a store that can be reached: the handler connects and makes one query, for the
  user with id \<open>claims.userId\<close> and with the password excluded (the trace of the
  request ends with this query). If no stored user has this id, the answer is 404
  \<open>{success: false, message: "User not found"}\<close>. If the lookup finds \<open>u\<close>, this query
  hands the handler \<open>u\<close> without its password field, and the answer is 200 with
  \<open>id\<close>, \<open>email\<close>, \<open>name\<close> and \<open>createdAt\<close> of \<open>u\<close>.
\<close>

theorem getProfile_lookup:
  "authenticateToken e h w = (Next claims, w') \<and> dbAvailable w \<longrightarrow>
     (userId claims \<notin> u_id ` set (users w) \<longrightarrow>
        profile_route e h w =
          (\<lparr>status = 404,
            body = JObj [(''success'', JBool False), (''message'', JStr ''User not found'')]\<rparr>,
           w'\<lparr>trace := trace w' @
                [EvConnect, EvFindById (Some (userId claims)) MinusPassword]\<rparr>)) \<and>
     (find (\<lambda>u. u_id u = userId claims) (users w) = Some u \<longrightarrow>
        User_findById (Some (userId claims)) MinusPassword (emit EvConnect w') =
          Inr (Some (u\<lparr>u_password := None\<rparr>),
               w'\<lparr>trace := trace w' @
                [EvConnect, EvFindById (Some (userId claims)) MinusPassword]\<rparr>) \<and>
        profile_route e h w =
          (\<lparr>status = 200,
            body = JObj [(''success'', JBool True),
                         (''user'', JObj [(''id'', JId (u_id u)),
                                          (''email'', JStr (u_email u)),
                                          (''name'', JStr (u_name u)),
                                          (''createdAt'', JDate (u_createdAt u))])]\<rparr>,
           w'\<lparr>trace := trace w' @
                [EvConnect, EvFindById (Some (userId claims)) MinusPassword]\<rparr>))"
proof (intro impI, elim conjE)
  assume mw: "authenticateToken e h w = (Next claims, w')" and db: "dbAvailable w"
  from authenticateToken_frame [OF mw] db
  have fr: "users w' = users w" "dbAvailable w'" by simp_all
  have route: "profile_route e h w = getProfile e (Some claims) w'"
    using mw by (simp add: profile_route_def)
  show "(userId claims \<notin> u_id ` set (users w) \<longrightarrow>
        profile_route e h w =
          (\<lparr>status = 404,
            body = JObj [(''success'', JBool False), (''message'', JStr ''User not found'')]\<rparr>,
           w'\<lparr>trace := trace w' @
                [EvConnect, EvFindById (Some (userId claims)) MinusPassword]\<rparr>)) \<and>
     (find (\<lambda>u. u_id u = userId claims) (users w) = Some u \<longrightarrow>
        User_findById (Some (userId claims)) MinusPassword (emit EvConnect w') =
          Inr (Some (u\<lparr>u_password := None\<rparr>),
               w'\<lparr>trace := trace w' @
                [EvConnect, EvFindById (Some (userId claims)) MinusPassword]\<rparr>) \<and>
        profile_route e h w =
          (\<lparr>status = 200,
            body = JObj [(''success'', JBool True),
                         (''user'', JObj [(''id'', JId (u_id u)),
                                          (''email'', JStr (u_email u)),
                                          (''name'', JStr (u_name u)),
                                          (''createdAt'', JDate (u_createdAt u))])]\<rparr>,
           w'\<lparr>trace := trace w' @
                [EvConnect, EvFindById (Some (userId claims)) MinusPassword]\<rparr>))"
    unfolding route
    using fr
    by (simp add: getProfile_def connectDB_def User_findById_def emit_def failure_def
          select_def find_None_image [symmetric])
qed

theorem getProfile_lookup_witness:
  "dbAvailable demo_world \<and>
   find (\<lambda>u. u_id u = 7) (users demo_world) = Some john \<and>
   profile_route demo_env (Some (''Bearer '' @ demo_token john 1990)) demo_world =
     (\<lparr>status = 200,
       body = JObj [(''success'', JBool True),
                    (''user'', JObj [(''id'', JId 7),
                                     (''email'', JStr ''john@example.com''),
                                     (''name'', JStr ''John Doe''),
                                     (''createdAt'', JDate 1000)])]\<rparr>,
      demo_world\<lparr>trace := [EvVerify (demo_token john 1990), EvNext, EvConnect,
                            EvFindById (Some 7) MinusPassword]\<rparr>) \<and>
   99 \<notin> u_id ` set (users demo_world) \<and>
   profile_route demo_env
       (Some (''Bearer '' @ demo_token (john\<lparr>u_id := 99\<rparr>) 1990)) demo_world =
     (\<lparr>status = 404,
       body = JObj [(''success'', JBool False), (''message'', JStr ''User not found'')]\<rparr>,
      demo_world\<lparr>trace := [EvVerify (demo_token (john\<lparr>u_id := 99\<rparr>) 1990),
                            EvNext, EvConnect, EvFindById (Some 99) MinusPassword]\<rparr>)"
proof -
  have a: "authenticateToken demo_env (Some (''Bearer '' @ demo_token john 1990))
        demo_world =
      (Next \<lparr>userId = 7, email = ''john@example.com'', name = ''John Doe'', iat = 1990,
             expiry = 606790\<rparr>,
       demo_world\<lparr>trace := [EvVerify (demo_token john 1990), EvNext]\<rparr>)"
    using demo_authenticated [of demo_world 1990 john] by (simp add: demo_world_def john_def)
  have b: "authenticateToken demo_env
        (Some (''Bearer '' @ demo_token (john\<lparr>u_id := 99\<rparr>) 1990)) demo_world =
      (Next \<lparr>userId = 99, email = ''john@example.com'', name = ''John Doe'', iat = 1990,
             expiry = 606790\<rparr>,
       demo_world\<lparr>trace := [EvVerify (demo_token (john\<lparr>u_id := 99\<rparr>) 1990),
                             EvNext]\<rparr>)"
    using demo_authenticated [of demo_world 1990 "john\<lparr>u_id := 99\<rparr>"]
    by (simp add: demo_world_def john_def)
  have c: "dbAvailable demo_world" "find (\<lambda>u. u_id u = 7) (users demo_world) = Some john"
    "99 \<notin> u_id ` set (users demo_world)"
    by (simp_all add: demo_world_def john_def)
  show ?thesis
    using a b c
      getProfile_lookup [where e = demo_env and w = demo_world and u = john
        and h = "Some (''Bearer '' @ demo_token john 1990)"
        and claims = "\<lparr>userId = 7, email = ''john@example.com'', name = ''John Doe'',
                       iat = 1990, expiry = 606790\<rparr>"
        and w' = "demo_world\<lparr>trace := [EvVerify (demo_token john 1990),
                                           EvNext]\<rparr>"]
      getProfile_lookup [where e = demo_env and w = demo_world
        and h = "Some (''Bearer '' @ demo_token (john\<lparr>u_id := 99\<rparr>) 1990)"
        and claims = "\<lparr>userId = 99, email = ''john@example.com'', name = ''John Doe'',
                       iat = 1990, expiry = 606790\<rparr>"
        and w' = "demo_world\<lparr>trace :=
                    [EvVerify (demo_token (john\<lparr>u_id := 99\<rparr>) 1990),
                     EvNext]\<rparr>"]
    by (simp add: john_def demo_world_def)
qed

section \<open>Login\<close>

text \<open>
  C3. Two login requests with an email and a password each, against a store that can be
  reached: the first names an email that no stored user has, the second the email of a
  stored user \<open>u\<close> with a password that does not match the hash of \<open>u\<close>. Both get the same
  response, 400 \<open>{success: false, message: "Invalid email or password"}\<close>. Against one
  and the same world the two responses are equal whether or not the store can be
  reached.
\<close>

theorem login_failures_indistinguishable:
  "(dbAvailable w1 \<and> dbAvailable w2 \<and> e1 \<noteq> [] \<and> p1 \<noteq> [] \<and> e2 \<noteq> [] \<and> p2 \<noteq> [] \<and>
    emailSetter e e1 \<notin> u_email ` set (users w1) \<and>
    find (\<lambda>u. u_email u = emailSetter e e2) (users w2) = Some u \<and>
    u_password u = Some hash \<and> \<not> bcrypt_compare e p2 hash \<longrightarrow>
      fst (login e \<lparr>l_email = Some e1, l_password = Some p1\<rparr> w1) =
      fst (login e \<lparr>l_email = Some e2, l_password = Some p2\<rparr> w2) \<and>
      fst (login e \<lparr>l_email = Some e2, l_password = Some p2\<rparr> w2) =
        \<lparr>status = 400,
         body = JObj [(''success'', JBool False),
                      (''message'', JStr ''Invalid email or password'')]\<rparr>) \<and>
   (e1 \<noteq> [] \<and> p1 \<noteq> [] \<and> e2 \<noteq> [] \<and> p2 \<noteq> [] \<and>
    emailSetter e e1 \<notin> u_email ` set (users w) \<and>
    find (\<lambda>u. u_email u = emailSetter e e2) (users w) = Some u \<and>
    u_password u = Some hash \<and> \<not> bcrypt_compare e p2 hash \<longrightarrow>
      fst (login e \<lparr>l_email = Some e1, l_password = Some p1\<rparr> w) =
      fst (login e \<lparr>l_email = Some e2, l_password = Some p2\<rparr> w))"
  by (simp add: login_def connectDB_def User_findOne_def comparePassword_def emit_def
        failure_def falsy_def find_None_image [symmetric])

theorem login_failures_indistinguishable_witness:
  "dbAvailable demo_world \<and>
   emailSetter demo_env ''nobody@example.com'' \<notin> u_email ` set (users demo_world) \<and>
   find (\<lambda>u. u_email u = emailSetter demo_env ''john@example.com'') (users demo_world) =
     Some john \<and>
   u_password john = Some ''$2a$10$321drowssap'' \<and>
   bcrypt_compare demo_env ''password123'' ''$2a$10$321drowssap'' \<and>
   bcrypt_compare demo_env ''letmein'' ''$2a$10$321drowssap'' = False \<and>
   fst (login demo_env
          \<lparr>l_email = Some ''nobody@example.com'', l_password = Some ''password123''\<rparr>
          demo_world) =
   fst (login demo_env \<lparr>l_email = Some ''john@example.com'', l_password = Some ''letmein''\<rparr>
          demo_world) \<and>
   fst (login demo_env \<lparr>l_email = Some ''john@example.com'', l_password = Some ''letmein''\<rparr>
          demo_world) =
     \<lparr>status = 400,
      body = JObj [(''success'', JBool False),
                   (''message'', JStr ''Invalid email or password'')]\<rparr>"
proof -
  have a: "dbAvailable demo_world"
    "emailSetter demo_env ''nobody@example.com'' \<notin> u_email ` set (users demo_world)"
    "find (\<lambda>u. u_email u = emailSetter demo_env ''john@example.com'') (users demo_world) =
       Some john"
    "u_password john = Some ''$2a$10$321drowssap''"
    "bcrypt_compare demo_env ''password123'' ''$2a$10$321drowssap''"
    "\<not> bcrypt_compare demo_env ''letmein'' ''$2a$10$321drowssap''"
    by (simp_all add: demo_world_def demo_env_def john_def)
  show ?thesis
    using a
      login_failures_indistinguishable [where e = demo_env and ?w1.0 = demo_world
        and ?w2.0 = demo_world and w = demo_world
        and ?e1.0 = "''nobody@example.com''" and ?p1.0 = "''password123''"
        and ?e2.0 = "''john@example.com''" and ?p2.0 = "''letmein''" and u = john
        and hash = "''$2a$10$321drowssap''"]
    by simp
qed

section \<open>Registration\<close>

text \<open>
  C6, as the code has it. The check that email, password and name are there comes
  before the lookup. A register request with all three non-empty, against a store that
  can be reached, whose email (as the schema's setter stores it) is the email of a
  stored user, is answered 400
  \<open>{success: false, message: "User with this email already exists"}\<close>; the handler has
  connected and looked the email up, and the world it leaves differs from the one it
  found in the trace only: no user was inserted.
\<close>

theorem register_duplicate_email:
  "dbAvailable w \<and> em \<noteq> [] \<and> pw \<noteq> [] \<and> nm \<noteq> [] \<and>
   emailSetter e em \<in> u_email ` set (users w) \<longrightarrow>
     register e \<lparr>r_email = Some em, r_password = Some pw, r_name = Some nm\<rparr> w =
       (\<lparr>status = 400,
         body = JObj [(''success'', JBool False),
                      (''message'', JStr ''User with this email already exists'')]\<rparr>,
        w\<lparr>trace := trace w @ [EvConnect, EvFindOne (emailSetter e em)]\<rparr>)"
  by (auto simp: register_def connectDB_def User_findOne_def emit_def failure_def falsy_def
        find_None_image)

theorem register_duplicate_email_witness:
  "dbAvailable demo_world \<and>
   emailSetter demo_env ''john@example.com'' \<in> u_email ` set (users demo_world) \<and>
   register demo_env
     \<lparr>r_email = Some ''john@example.com'', r_password = Some ''password123'',
      r_name = Some ''John Doe''\<rparr> demo_world =
       (\<lparr>status = 400,
         body = JObj [(''success'', JBool False),
                      (''message'', JStr ''User with this email already exists'')]\<rparr>,
        demo_world\<lparr>trace := [EvConnect, EvFindOne ''john@example.com'']\<rparr>)"
  using register_duplicate_email [where e = demo_env and w = demo_world
    and em = "''john@example.com''" and pw = "''password123''" and nm = "''John Doe''"]
  by (simp add: demo_world_def demo_env_def john_def)

text \<open>
  The claim is about every register request whose email is taken. John is stored; a
  request with John's email and an empty password is answered 400 with another body,
  \<open>{success: false, message: "Email, password, and name are required"}\<close>.
\<close>

theorem register_duplicate_email_counterexample:
  "john \<in> set (users demo_world) \<and> u_email john = ''john@example.com'' \<and>
   fst (register demo_env
          \<lparr>r_email = Some ''john@example.com'', r_password = Some [],
           r_name = Some ''John Doe''\<rparr> demo_world) =
     \<lparr>status = 400,
      body = JObj [(''success'', JBool False),
                   (''message'', JStr ''Email, password, and name are required'')]\<rparr> \<and>
   fst (register demo_env
          \<lparr>r_email = Some ''john@example.com'', r_password = Some [],
           r_name = Some ''John Doe''\<rparr> demo_world) \<noteq>
     \<lparr>status = 400,
      body = JObj [(''success'', JBool False),
                   (''message'', JStr ''User with this email already exists'')]\<rparr>"
  by (simp add: register_def connectDB_def demo_world_def john_def failure_def falsy_def
        emit_def)

text \<open>
  C7, as the code has it. The handler connects before it looks at the body. Against a
  store that can be reached, a register request in which email, password or name is
  absent or empty is answered 400
  \<open>{success: false, message: "Email, password, and name are required"}\<close>, and the
  connection is the only call made: no query, no write; against a store that cannot be
  reached, every request is answered 500. Whenever \<open>register\<close> changes the
  stored users, the request had all three fields and exactly one user was appended
  (with the next id, the email as the setter stores it, the hash of the password, the
  name and the current time); if then \<open>jwt.sign\<close> returns a token for the payload of
  this user's id, email and name, under the server's secret and expiry at the current
  time, the response is 201 with this token and the user's \<open>id\<close>, \<open>email\<close> and \<open>name\<close>, and
  with a library that keeps its contract the token verifies to these claims until it
  expires. And the user is created when the store can be reached, the three fields are
  non-empty, the email is free and the validators of the schema accept the document.
\<close>

theorem register_validation_and_success:
  "(dbAvailable w \<and> (falsy (r_email req) \<or> falsy (r_password req) \<or> falsy (r_name req)) \<longrightarrow>
      register e req w =
        (\<lparr>status = 400,
          body = JObj [(''success'', JBool False),
                       (''message'', JStr ''Email, password, and name are required'')]\<rparr>,
         w\<lparr>trace := trace w @ [EvConnect]\<rparr>)) \<and>
   (users (snd (register e req w)) \<noteq> users w \<longrightarrow>
      (\<exists>em pw nm user.
         req = \<lparr>r_email = Some em, r_password = Some pw, r_name = Some nm\<rparr> \<and>
         user = \<lparr>u_id = nextId w, u_email = emailSetter e em,
                 u_password = Some (bcrypt_hash e pw), u_name = nm, u_createdAt = now w\<rparr> \<and>
         users (snd (register e req w)) = users w @ [user] \<and>
         (\<forall>token.
            jwt_sign (jwt e) \<lparr>userId = nextId w, email = emailSetter e em, name = nm\<rparr>
              (JWT_SECRET e) (JWT_EXPIRE e) (now w) = Inr token \<longrightarrow>
            fst (register e req w) =
              \<lparr>status = 201,
               body = JObj [(''success'', JBool True),
                            (''message'', JStr ''User registered successfully''),
                            (''token'', JStr token),
                            (''user'', JObj [(''id'', JId (nextId w)),
                                             (''email'', JStr (emailSetter e em)),
                                             (''name'', JStr nm)])]\<rparr> \<and>
            (\<forall>ttl t. jwt_contract (jwt e) \<and>
                     jwt_timespan (jwt e) (JWT_EXPIRE e) = Some ttl \<and> t < now w + ttl \<longrightarrow>
               verifyToken e token t =
                 Inr \<lparr>userId = nextId w, email = emailSetter e em, name = nm,
                      iat = now w, expiry = now w + ttl\<rparr>)))) \<and>
   (dbAvailable w \<and> em \<noteq> [] \<and> pw \<noteq> [] \<and> nm \<noteq> [] \<and>
    emailSetter e em \<notin> u_email ` set (users w) \<and>
    validators e \<lparr>u_id = nextId w, u_email = emailSetter e em, u_password = Some pw,
                  u_name = nm, u_createdAt = now w\<rparr> = [] \<longrightarrow>
      users (snd (register e \<lparr>r_email = Some em, r_password = Some pw, r_name = Some nm\<rparr> w))
        = users w @ [\<lparr>u_id = nextId w, u_email = emailSetter e em,
                       u_password = Some (bcrypt_hash e pw), u_name = nm,
                       u_createdAt = now w\<rparr>]) \<and>
   (\<not> dbAvailable w \<longrightarrow>
      register e req w =
        (\<lparr>status = 500,
          body = JObj [(''success'', JBool False),
                       (''message'', JStr ''Internal server error'')]\<rparr>, w))"
proof (intro conjI impI)
  assume "dbAvailable w \<and>
    (falsy (r_email req) \<or> falsy (r_password req) \<or> falsy (r_name req))"
  then show "register e req w =
        (\<lparr>status = 400,
          body = JObj [(''success'', JBool False),
                       (''message'', JStr ''Email, password, and name are required'')]\<rparr>,
         w\<lparr>trace := trace w @ [EvConnect]\<rparr>)"
    by (auto simp: register_def connectDB_def emit_def failure_def)
next
  assume ch: "users (snd (register e req w)) \<noteq> users w"
  obtain a b c where req: "req = \<lparr>r_email = a, r_password = b, r_name = c\<rparr>"
    by (cases req) auto
  from ch obtain em pw nm where abc: "a = Some em" "b = Some pw" "c = Some nm"
    unfolding req
    by (cases a; cases b; cases c)
       (auto simp: register_def connectDB_def emit_def failure_def falsy_def
          split: if_splits)
  let ?user = "\<lparr>u_id = nextId w, u_email = emailSetter e em,
                 u_password = Some (bcrypt_hash e pw), u_name = nm, u_createdAt = now w\<rparr>"
  let ?p = "\<lparr>userId = nextId w, email = emailSetter e em, name = nm\<rparr>"
  have saved: "users (snd (register e req w)) = users w @ [?user]"
    using ch unfolding req abc
    by (auto simp: register_def connectDB_def User_findOne_def User_new_def User_save_def
          emit_def failure_def falsy_def register_catch_def Let_def
          split: if_splits list.splits option.splits sum.splits js_error.splits)
  have resp: "fst (register e req w) =
              \<lparr>status = 201,
               body = JObj [(''success'', JBool True),
                            (''message'', JStr ''User registered successfully''),
                            (''token'', JStr token),
                            (''user'', JObj [(''id'', JId (nextId w)),
                                             (''email'', JStr (emailSetter e em)),
                                             (''name'', JStr nm)])]\<rparr>"
    if "jwt_sign (jwt e) ?p (JWT_SECRET e) (JWT_EXPIRE e) (now w) = Inr token" for token
    using ch that unfolding req abc
    by (auto simp: register_def connectDB_def User_findOne_def User_new_def User_save_def
          emit_def failure_def falsy_def register_catch_def Let_def generateToken_def
          split: if_splits list.splits option.splits)
  have ver: "verifyToken e token t =
                 Inr \<lparr>userId = nextId w, email = emailSetter e em, name = nm,
                      iat = now w, expiry = now w + ttl\<rparr>"
    if "jwt_sign (jwt e) ?p (JWT_SECRET e) (JWT_EXPIRE e) (now w) = Inr token"
      and "jwt_contract (jwt e) \<and>
           jwt_timespan (jwt e) (JWT_EXPIRE e) = Some ttl \<and> t < now w + ttl"
    for token ttl t
    using that
      contract_sign_verify [of "jwt e" "JWT_EXPIRE e" ttl ?p "JWT_SECRET e" "now w" token t]
    by (simp add: verifyToken_def decoded_def)
  have main: "req = \<lparr>r_email = Some em, r_password = Some pw, r_name = Some nm\<rparr> \<and>
         ?user = \<lparr>u_id = nextId w, u_email = emailSetter e em,
                  u_password = Some (bcrypt_hash e pw), u_name = nm,
                  u_createdAt = now w\<rparr> \<and>
         users (snd (register e req w)) = users w @ [?user] \<and>
         (\<forall>token.
            jwt_sign (jwt e) \<lparr>userId = nextId w, email = emailSetter e em, name = nm\<rparr>
              (JWT_SECRET e) (JWT_EXPIRE e) (now w) = Inr token \<longrightarrow>
            fst (register e req w) =
              \<lparr>status = 201,
               body = JObj [(''success'', JBool True),
                            (''message'', JStr ''User registered successfully''),
                            (''token'', JStr token),
                            (''user'', JObj [(''id'', JId (nextId w)),
                                             (''email'', JStr (emailSetter e em)),
                                             (''name'', JStr nm)])]\<rparr> \<and>
            (\<forall>ttl t. jwt_contract (jwt e) \<and>
                     jwt_timespan (jwt e) (JWT_EXPIRE e) = Some ttl \<and> t < now w + ttl \<longrightarrow>
               verifyToken e token t =
                 Inr \<lparr>userId = nextId w, email = emailSetter e em, name = nm,
                      iat = now w, expiry = now w + ttl\<rparr>))"
  proof (intro conjI allI impI)
    show "req = \<lparr>r_email = Some em, r_password = Some pw, r_name = Some nm\<rparr>"
      using req abc by simp
    show "?user = \<lparr>u_id = nextId w, u_email = emailSetter e em,
                  u_password = Some (bcrypt_hash e pw), u_name = nm,
                  u_createdAt = now w\<rparr>"
      by (rule refl)
    show "users (snd (register e req w)) = users w @ [?user]"
      by (rule saved)
  next
    fix token
    assume "jwt_sign (jwt e) ?p (JWT_SECRET e) (JWT_EXPIRE e) (now w) = Inr token"
    then show "fst (register e req w) =
              \<lparr>status = 201,
               body = JObj [(''success'', JBool True),
                            (''message'', JStr ''User registered successfully''),
                            (''token'', JStr token),
                            (''user'', JObj [(''id'', JId (nextId w)),
                                             (''email'', JStr (emailSetter e em)),
                                             (''name'', JStr nm)])]\<rparr>"
      by (rule resp)
  next
    fix token ttl t
    assume "jwt_sign (jwt e) ?p (JWT_SECRET e) (JWT_EXPIRE e) (now w) = Inr token"
      and "jwt_contract (jwt e) \<and>
           jwt_timespan (jwt e) (JWT_EXPIRE e) = Some ttl \<and> t < now w + ttl"
    then show "verifyToken e token t =
                 Inr \<lparr>userId = nextId w, email = emailSetter e em, name = nm,
                      iat = now w, expiry = now w + ttl\<rparr>"
      by (rule ver)
  qed
  show "\<exists>em pw nm user.
         req = \<lparr>r_email = Some em, r_password = Some pw, r_name = Some nm\<rparr> \<and>
         user = \<lparr>u_id = nextId w, u_email = emailSetter e em,
                 u_password = Some (bcrypt_hash e pw), u_name = nm, u_createdAt = now w\<rparr> \<and>
         users (snd (register e req w)) = users w @ [user] \<and>
         (\<forall>token.
            jwt_sign (jwt e) \<lparr>userId = nextId w, email = emailSetter e em, name = nm\<rparr>
              (JWT_SECRET e) (JWT_EXPIRE e) (now w) = Inr token \<longrightarrow>
            fst (register e req w) =
              \<lparr>status = 201,
               body = JObj [(''success'', JBool True),
                            (''message'', JStr ''User registered successfully''),
                            (''token'', JStr token),
                            (''user'', JObj [(''id'', JId (nextId w)),
                                             (''email'', JStr (emailSetter e em)),
                                             (''name'', JStr nm)])]\<rparr> \<and>
            (\<forall>ttl t. jwt_contract (jwt e) \<and>
                     jwt_timespan (jwt e) (JWT_EXPIRE e) = Some ttl \<and> t < now w + ttl \<longrightarrow>
               verifyToken e token t =
                 Inr \<lparr>userId = nextId w, email = emailSetter e em, name = nm,
                      iat = now w, expiry = now w + ttl\<rparr>))"
    by (rule exI [of _ em], rule exI [of _ pw], rule exI [of _ nm], rule exI [of _ ?user])
       (rule main)
next
  assume "dbAvailable w \<and> em \<noteq> [] \<and> pw \<noteq> [] \<and> nm \<noteq> [] \<and>
    emailSetter e em \<notin> u_email ` set (users w) \<and>
    validators e \<lparr>u_id = nextId w, u_email = emailSetter e em, u_password = Some pw,
                  u_name = nm, u_createdAt = now w\<rparr> = []"
  then show
    "users (snd (register e \<lparr>r_email = Some em, r_password = Some pw, r_name = Some nm\<rparr> w))
        = users w @ [\<lparr>u_id = nextId w, u_email = emailSetter e em,
                       u_password = Some (bcrypt_hash e pw), u_name = nm,
                       u_createdAt = now w\<rparr>]"
    by (simp add: register_def connectDB_def User_findOne_def User_new_def User_save_def
          emit_def falsy_def Let_def find_None_image [symmetric]
          split: sum.splits js_error.splits)
next
  assume "\<not> dbAvailable w"
  then show "register e req w =
        (\<lparr>status = 500,
          body = JObj [(''success'', JBool False),
                       (''message'', JStr ''Internal server error'')]\<rparr>, w)"
    by (simp add: storage_unreachable failure_def)
qed

lemma demo_sign_mary:
  "jwt_sign (jwt demo_env) \<lparr>userId = 8, email = ''mary@example.com'', name = ''Mary''\<rparr>
     (JWT_SECRET demo_env) (JWT_EXPIRE demo_env) 2000 = Inr (demo_token mary 2000)"
  using demo_generateToken [of mary 2000] by (simp add: generateToken_def mary_def)

theorem register_validation_and_success_witness:
  "dbAvailable demo_world \<and>
   falsy (r_name \<lparr>r_email = Some ''mary@example.com'', r_password = Some ''secret1'',
                  r_name = None\<rparr>) \<and>
   register demo_env
     \<lparr>r_email = Some ''mary@example.com'', r_password = Some ''secret1'', r_name = None\<rparr>
     demo_world =
       (\<lparr>status = 400,
         body = JObj [(''success'', JBool False),
                      (''message'', JStr ''Email, password, and name are required'')]\<rparr>,
        demo_world\<lparr>trace := [EvConnect]\<rparr>) \<and>
   users (snd (register demo_env mary_request demo_world)) = [john, mary] \<and>
   users (snd (register demo_env mary_request demo_world)) \<noteq> users demo_world \<and>
   jwt_sign (jwt demo_env) \<lparr>userId = 8, email = ''mary@example.com'', name = ''Mary''\<rparr>
     (JWT_SECRET demo_env) (JWT_EXPIRE demo_env) 2000 = Inr (demo_token mary 2000) \<and>
   fst (register demo_env mary_request demo_world) =
     \<lparr>status = 201,
      body = JObj [(''success'', JBool True),
                   (''message'', JStr ''User registered successfully''),
                   (''token'', JStr (demo_token mary 2000)),
                   (''user'', JObj [(''id'', JId 8),
                                    (''email'', JStr ''mary@example.com''),
                                    (''name'', JStr ''Mary'')])]\<rparr> \<and>
   verifyToken demo_env (demo_token mary 2000) 5000 =
     Inr \<lparr>userId = 8, email = ''mary@example.com'', name = ''Mary'', iat = 2000,
          expiry = 606800\<rparr> \<and>
   \<not> dbAvailable offline_world \<and>
   register demo_env mary_request offline_world =
     (\<lparr>status = 500,
       body = JObj [(''success'', JBool False),
                    (''message'', JStr ''Internal server error'')]\<rparr>, offline_world)"
proof -
  have v: "validators demo_env
      \<lparr>u_id = nextId demo_world, u_email = emailSetter demo_env ''mary@example.com'',
       u_password = Some ''secret1'', u_name = ''Mary'', u_createdAt = now demo_world\<rparr> = []"
    by (simp add: validators_def demo_env_def demo_world_def)
  have d: "dbAvailable demo_world"
    "emailSetter demo_env ''mary@example.com'' \<notin> u_email ` set (users demo_world)"
    by (simp_all add: demo_env_def demo_world_def john_def)
  have m: "\<lparr>u_id = nextId demo_world, u_email = emailSetter demo_env ''mary@example.com'',
       u_password = Some (bcrypt_hash demo_env ''secret1''), u_name = ''Mary'',
       u_createdAt = now demo_world\<rparr> = mary"
    by (simp add: demo_env_def demo_world_def mary_def)
  have u: "users demo_world = [john]" "now demo_world = 2000" "trace demo_world = []"
    "nextId demo_world = 8" "emailSetter demo_env ''mary@example.com'' = ''mary@example.com''"
    by (simp_all add: demo_world_def demo_env_def)
  have c: "jwt_contract (jwt demo_env)"
    by (simp add: demo_env_def reference_jwt_contract)
  have c': "jwt_timespan (jwt demo_env) (JWT_EXPIRE demo_env) = Some 604800"
    by (simp add: demo_env_def reference_jwt_def JWT_EXPIRE_def falsy_def ref_timespan_7d)
  from v d m u
    register_validation_and_success [where e = demo_env and w = demo_world
      and req = "\<lparr>r_email = Some ''mary@example.com'', r_password = Some ''secret1'',
                   r_name = None\<rparr>"
      and em = "''mary@example.com''" and pw = "''secret1''" and nm = "''Mary''"]
  have one: "register demo_env
     \<lparr>r_email = Some ''mary@example.com'', r_password = Some ''secret1'', r_name = None\<rparr>
     demo_world =
       (\<lparr>status = 400,
         body = JObj [(''success'', JBool False),
                      (''message'', JStr ''Email, password, and name are required'')]\<rparr>,
        demo_world\<lparr>trace := [EvConnect]\<rparr>)"
    and three: "users (snd (register demo_env mary_request demo_world)) = [john, mary]"
    by (simp_all add: falsy_def mary_request_def)
  from three u have changed: "users (snd (register demo_env mary_request demo_world)) \<noteq>
      users demo_world"
    by simp
  with u c c' demo_sign_mary
    register_validation_and_success [where e = demo_env and w = demo_world
      and req = mary_request]
  have two: "fst (register demo_env mary_request demo_world) =
     \<lparr>status = 201,
      body = JObj [(''success'', JBool True),
                   (''message'', JStr ''User registered successfully''),
                   (''token'', JStr (demo_token mary 2000)),
                   (''user'', JObj [(''id'', JId 8),
                                    (''email'', JStr ''mary@example.com''),
                                    (''name'', JStr ''Mary'')])]\<rparr>"
    and four: "verifyToken demo_env (demo_token mary 2000) 5000 =
     Inr \<lparr>userId = 8, email = ''mary@example.com'', name = ''Mary'', iat = 2000,
          expiry = 606800\<rparr>"
    by (auto simp: mary_request_def)
  have off: "\<not> dbAvailable offline_world"
    by (simp add: offline_world_def)
  with register_validation_and_success [where e = demo_env and w = offline_world
      and req = mary_request]
  have five: "register demo_env mary_request offline_world =
     (\<lparr>status = 500,
       body = JObj [(''success'', JBool False),
                    (''message'', JStr ''Internal server error'')]\<rparr>, offline_world)"
    by simp
  show ?thesis
    using d one two three four five off changed demo_sign_mary by (simp add: falsy_def)
qed

text \<open>
  The claim has every incomplete request answered 400 and every creation answered 201.
  With the database out of reach, a request without a name is answered 500. With
  \<open>JWT_EXPIRE=soon\<close>, Mary's request stores Mary and is answered 500: \<open>jwt.sign\<close> throws
  after \<open>user.save()\<close>.
\<close>

theorem register_validation_and_success_counterexample:
  "\<not> dbAvailable offline_world \<and>
   fst (register demo_env
          \<lparr>r_email = Some ''mary@example.com'', r_password = Some ''secret1'',
           r_name = None\<rparr> offline_world) =
     \<lparr>status = 500,
      body = JObj [(''success'', JBool False), (''message'', JStr ''Internal server error'')]\<rparr> \<and>
   users (snd (register misconfigured_env mary_request demo_world)) = [john, mary] \<and>
   fst (register misconfigured_env mary_request demo_world) =
     \<lparr>status = 500,
      body = JObj [(''success'', JBool False), (''message'', JStr ''Internal server error'')]\<rparr>"
proof -
  have a: "\<not> dbAvailable offline_world"
    by (simp add: offline_world_def)
  from storage_unreachable [OF a]
  have b: "fst (register demo_env
          \<lparr>r_email = Some ''mary@example.com'', r_password = Some ''secret1'',
           r_name = None\<rparr> offline_world) =
     \<lparr>status = 500,
      body = JObj [(''success'', JBool False), (''message'', JStr ''Internal server error'')]\<rparr>"
    by (simp add: failure_def)
  have g: "generateToken misconfigured_env mary 2000 =
     Inl (Error ''expiresIn should be a number of seconds or a timespan'')"
    by (simp add: generateToken_def misconfigured_env_def demo_env_def reference_jwt_def
          ref_sign_span_def JWT_EXPIRE_def falsy_def ref_timespan_soon)
  have v: "validators misconfigured_env
      \<lparr>u_id = 8, u_email = ''mary@example.com'', u_password = Some ''secret1'',
       u_name = ''Mary'', u_createdAt = 2000\<rparr> = []"
    by (simp add: validators_def misconfigured_env_def demo_env_def)
  have h: "bcrypt_hash misconfigured_env ''secret1'' = ''$2a$10$1terces''"
    "emailSetter misconfigured_env ''mary@example.com'' = ''mary@example.com''"
    by (simp_all add: misconfigured_env_def demo_env_def)
  have c: "register misconfigured_env mary_request demo_world =
     (\<lparr>status = 500,
       body = JObj [(''success'', JBool False), (''message'', JStr ''Internal server error'')]\<rparr>,
      demo_world\<lparr>users := [john, mary], nextId := 9,
        trace := [EvConnect, EvFindOne ''mary@example.com'', EvSave 8]\<rparr>)"
    using g v h
    by (simp add: register_def connectDB_def User_findOne_def User_new_def User_save_def
          emit_def falsy_def Let_def mary_request_def demo_world_def john_def mary_def
          register_catch_def failure_def)
  show ?thesis
    using a b c by simp
qed

section \<open>What a response holds\<close>















end
